theory Spec2Isabelle
  imports Main "HOL-Library.AList"
begin

section \<open>Python values\<close>

text \<open>
  The bookmark store of \<^verbatim>\<open>sow_bookmark_store.py\<close> keeps, for one tracked client, the
  bookmark of the last discarded message of every subscription, in a dictionary and in
  a State-of-the-World (SOW) topic of an AMPS server.

  Text is a list of code points (the \<^verbatim>\<open>str\<close> of Python 3, in which the texts of a
  message and the texts that \<^verbatim>\<open>json.loads\<close> returns have one type): the JSON escape
  \<^verbatim>\<open>\uXXXX\<close> names code points that do not fit a byte. \<open>str\<close> turns a literal of this
  file into such a text.
\<close>

type_synonym pystr = "nat list"

definition str :: "string \<Rightarrow> pystr" where
  "str = map of_char"

text \<open>
  What \<^verbatim>\<open>json.loads\<close> returns. A float keeps the text of its literal: its value is
  not needed. A dictionary is the list of its items in insertion order, with one item
  for each key.
\<close>

datatype pyval =
    PNone
  | PBool bool
  | PInt int
  | PFloat pystr
  | PStr pystr
  | PList "pyval list"
  | PDict "(pystr \<times> pyval) list"

text \<open>
  The exceptions of the program: \<open>AMPSException msg cause\<close> is
  \<^verbatim>\<open>AMPS.AMPSException(msg)\<close> or \<^verbatim>\<open>AMPS.AMPSException(msg, cause)\<close>; the others are
  what \<^verbatim>\<open>json.loads\<close> and the operators \<^verbatim>\<open>in\<close> and \<^verbatim>\<open>[]\<close> raise.
\<close>

datatype py_error =
    AMPSException pystr "py_error option"
  | ValueError
  | TypeError
  | KeyError

section \<open>The library function json.loads\<close>

text \<open>
  \<^verbatim>\<open>json.loads\<close> belongs to Python's library, not to the repository. It is modelled
  from its documented grammar (RFC 8259, and the literals \<^verbatim>\<open>NaN\<close>, \<^verbatim>\<open>Infinity\<close> and
  \<^verbatim>\<open>-Infinity\<close> that Python accepts by default): first the tokens, then the values.
  Every error of the decoder is a \<^verbatim>\<open>ValueError\<close>. The interpreter's limits (recursion
  depth, digits of an integer) are not modelled.
\<close>

definition is_ws :: "nat \<Rightarrow> bool" where
  "is_ws c = (c = 32 \<or> c = 9 \<or> c = 10 \<or> c = 13)"

definition is_digit :: "nat \<Rightarrow> bool" where
  "is_digit c = (48 \<le> c \<and> c \<le> 57)"

definition hexval :: "nat \<Rightarrow> nat option" where
  "hexval c =
     (if 48 \<le> c \<and> c \<le> 57 then Some (c - 48)
      else if 97 \<le> c \<and> c \<le> 102 then Some (c - 87)
      else if 65 \<le> c \<and> c \<le> 70 then Some (c - 55)
      else None)"

definition hex4 :: "pystr \<Rightarrow> nat option" where
  "hex4 ds =
     (case map hexval ds of
        [Some a, Some b, Some c, Some d] \<Rightarrow> Some (((a * 16 + b) * 16 + c) * 16 + d)
      | _ \<Rightarrow> None)"

text \<open>The character after a backslash, other than \<^verbatim>\<open>u\<close>: \<^verbatim>\<open>" \ / b f n r t\<close>.\<close>

definition unescape :: "nat \<Rightarrow> nat option" where
  "unescape e =
     (if e = 34 then Some 34
      else if e = 92 then Some 92
      else if e = 47 then Some 47
      else if e = 98 then Some 8
      else if e = 102 then Some 12
      else if e = 110 then Some 10
      else if e = 114 then Some 13
      else if e = 116 then Some 9
      else None)"

definition join_surrogates :: "nat \<Rightarrow> nat \<Rightarrow> nat" where
  "join_surrogates hi lo = 65536 + (hi - 55296) * 1024 + (lo - 56320)"

text \<open>
  \<open>scanstring acc cs\<close> reads a string literal whose opening quote has been read:
  the decoded text and what follows the closing quote. A control character, an
  unknown escape and a missing closing quote are errors.
\<close>

fun scanstring :: "pystr \<Rightarrow> pystr \<Rightarrow> (pystr \<times> pystr) option" where
  "scanstring acc [] = None"
| "scanstring acc [c] = (if c = 34 then Some (rev acc, []) else None)"
| "scanstring acc (c # e # es) =
     (if c = 34 then Some (rev acc, e # es)
      else if c < 32 then None
      else if c \<noteq> 92 then scanstring (c # acc) (e # es)
      else if e \<noteq> 117 then
        (case unescape e of
           None \<Rightarrow> None
         | Some u \<Rightarrow> scanstring (u # acc) es)
      else
        (case hex4 (take 4 es) of
           None \<Rightarrow> None
         | Some u \<Rightarrow>
             if 55296 \<le> u \<and> u < 56320 \<and> take 2 (drop 4 es) = [92, 117] then
               (case hex4 (take 4 (drop 6 es)) of
                  None \<Rightarrow> None
                | Some u2 \<Rightarrow>
                    if 56320 \<le> u2 \<and> u2 < 57344
                    then scanstring (join_surrogates u u2 # acc) (drop 10 es)
                    else scanstring (u # acc) (drop 4 es))
             else scanstring (u # acc) (drop 4 es)))"

text \<open>
  A number is \<^verbatim>\<open>-?(0|[1-9][0-9]*)(\.[0-9]+)?([eE][-+]?[0-9]+)?\<close>. No token can follow
  a number but a space, a comma or a closing bracket, so the longest run of the
  characters of numbers is read and must be a number as a whole.
\<close>

definition is_numchar :: "nat \<Rightarrow> bool" where
  "is_numchar c = (is_digit c \<or> c = 45 \<or> c = 43 \<or> c = 46 \<or> c = 101 \<or> c = 69)"

definition digits_val :: "pystr \<Rightarrow> nat" where
  "digits_val ds = foldl (\<lambda>n d. 10 * n + (d - 48)) 0 ds"

definition int_part_ok :: "pystr \<Rightarrow> bool" where
  "int_part_ok ds = (ds \<noteq> [] \<and> (if hd ds = 48 then length ds = 1 else True))"

definition number_of :: "pystr \<Rightarrow> pyval option" where
  "number_of run =
     (let neg = (take 1 run = [45]);
          body = (if neg then tl run else run);
          ip = takeWhile is_digit body;
          r1 = dropWhile is_digit body;
          has_frac = (take 1 r1 = [46]);
          fp = (if has_frac then takeWhile is_digit (tl r1) else []);
          r2 = (if has_frac then dropWhile is_digit (tl r1) else r1);
          has_exp = (take 1 r2 = [101] \<or> take 1 r2 = [69]);
          r3 = (if has_exp \<and> (take 1 (tl r2) = [43] \<or> take 1 (tl r2) = [45])
                then tl (tl r2) else if has_exp then tl r2 else r2);
          ep = takeWhile is_digit r3;
          r4 = (if has_exp then dropWhile is_digit r3 else r3)
      in if int_part_ok ip \<and> (if has_frac then fp \<noteq> [] else True)
            \<and> (if has_exp then ep \<noteq> [] else True) \<and> r4 = []
         then Some (if has_frac \<or> has_exp then PFloat run
                    else PInt (if neg then - int (digits_val ip) else int (digits_val ip)))
         else None)"

datatype token =
    TLBrace | TRBrace | TLBracket | TRBracket | TColon | TComma
  | TScalar pyval

lemma scanstring_shorter:
  "scanstring acc cs = Some (s, rest) \<Longrightarrow> length rest < length cs"
  by (induction acc cs rule: scanstring.induct)
     (force split: if_splits option.splits)+

function lex :: "pystr \<Rightarrow> token list option" where
  "lex [] = Some []"
| "lex (c # cs) =
     (if is_ws c then lex cs
      else if c = 123 then map_option (Cons TLBrace) (lex cs)
      else if c = 125 then map_option (Cons TRBrace) (lex cs)
      else if c = 91 then map_option (Cons TLBracket) (lex cs)
      else if c = 93 then map_option (Cons TRBracket) (lex cs)
      else if c = 58 then map_option (Cons TColon) (lex cs)
      else if c = 44 then map_option (Cons TComma) (lex cs)
      else if c = 34 then
        (case scanstring [] cs of
           None \<Rightarrow> None
         | Some (s, rest) \<Rightarrow> map_option (Cons (TScalar (PStr s))) (lex rest))
      else if take 4 (c # cs) = str ''null'' then
        map_option (Cons (TScalar PNone)) (lex (drop 3 cs))
      else if take 4 (c # cs) = str ''true'' then
        map_option (Cons (TScalar (PBool True))) (lex (drop 3 cs))
      else if take 5 (c # cs) = str ''false'' then
        map_option (Cons (TScalar (PBool False))) (lex (drop 4 cs))
      else if take 3 (c # cs) = str ''NaN'' then
        map_option (Cons (TScalar (PFloat (str ''NaN'')))) (lex (drop 2 cs))
      else if take 8 (c # cs) = str ''Infinity'' then
        map_option (Cons (TScalar (PFloat (str ''Infinity'')))) (lex (drop 7 cs))
      else if take 9 (c # cs) = str ''-Infinity'' then
        map_option (Cons (TScalar (PFloat (str ''-Infinity'')))) (lex (drop 8 cs))
      else if is_digit c \<or> c = 45 then
        (case number_of (c # takeWhile is_numchar cs) of
           None \<Rightarrow> None
         | Some v \<Rightarrow> map_option (Cons (TScalar v)) (lex (dropWhile is_numchar cs)))
      else None)"
  by pat_completeness auto
termination
  by (relation "measure length")
     (auto dest!: scanstring_shorter simp: le_imp_less_Suc length_dropWhile_le)

text \<open>
  The values. \<open>parse_value fs ts\<close> reads a value from the tokens \<open>ts\<close> inside the open
  lists and dictionaries \<open>fs\<close>, the innermost first; \<open>parse_after fs v ts\<close> goes on
  after the value \<open>v\<close>. A dictionary is built as Python's \<^verbatim>\<open>dict\<close> builds it: a key
  that comes again keeps its place and takes the new value.
\<close>

datatype frame =
    FList "pyval list"
  | FDict "(pystr \<times> pyval) list" pystr

fun parse_value :: "frame list \<Rightarrow> token list \<Rightarrow> pyval option"
  and parse_after :: "frame list \<Rightarrow> pyval \<Rightarrow> token list \<Rightarrow> pyval option" where
  "parse_value fs [] = None"
| "parse_value fs (t # ts) =
     (case t of
        TScalar v \<Rightarrow> parse_after fs v ts
      | TLBracket \<Rightarrow>
          (case ts of
             TRBracket # ts' \<Rightarrow> parse_after fs (PList []) ts'
           | _ \<Rightarrow> parse_value (FList [] # fs) ts)
      | TLBrace \<Rightarrow>
          (case ts of
             TRBrace # ts' \<Rightarrow> parse_after fs (PDict []) ts'
           | TScalar (PStr k) # TColon # ts' \<Rightarrow> parse_value (FDict [] k # fs) ts'
           | _ \<Rightarrow> None)
      | _ \<Rightarrow> None)"
| "parse_after [] v ts = (if ts = [] then Some v else None)"
| "parse_after (FList acc # fs) v ts =
     (case ts of
        TComma # ts' \<Rightarrow> parse_value (FList (v # acc) # fs) ts'
      | TRBracket # ts' \<Rightarrow> parse_after fs (PList (rev (v # acc))) ts'
      | _ \<Rightarrow> None)"
| "parse_after (FDict kvs k # fs) v ts =
     (case ts of
        TComma # TScalar (PStr k') # TColon # ts' \<Rightarrow>
          parse_value (FDict (AList.update k v kvs) k' # fs) ts'
      | TRBrace # ts' \<Rightarrow> parse_after fs (PDict (AList.update k v kvs)) ts'
      | _ \<Rightarrow> None)"

definition json_loads :: "pystr \<Rightarrow> py_error + pyval" where
  "json_loads s =
     (case lex s of
        None \<Rightarrow> Inl ValueError
      | Some ts \<Rightarrow>
          (case parse_value [] ts of
             None \<Rightarrow> Inl ValueError
           | Some v \<Rightarrow> Inr v))"

section \<open>Python's operators on a decoded record\<close>

text \<open>
  \<^verbatim>\<open>k in d\<close> for a text \<open>k\<close>: a key of a dictionary, an element of a list, a part of a
  text; any other decoded value is not iterable. \<^verbatim>\<open>d[k]\<close> for a text \<open>k\<close>: the value
  under a key of a dictionary, an error otherwise. Lists and dictionaries cannot be
  keys of a dictionary.
\<close>

fun is_substring :: "pystr \<Rightarrow> pystr \<Rightarrow> bool" where
  "is_substring k [] = (k = [])"
| "is_substring k (c # cs) = (take (length k) (c # cs) = k \<or> is_substring k cs)"

definition py_contains :: "pystr \<Rightarrow> pyval \<Rightarrow> py_error + bool" where
  "py_contains k d =
     (case d of
        PDict kvs \<Rightarrow> Inr (map_of kvs k \<noteq> None)
      | PList xs \<Rightarrow> Inr (PStr k \<in> set xs)
      | PStr s \<Rightarrow> Inr (is_substring k s)
      | _ \<Rightarrow> Inl TypeError)"

definition py_getitem :: "pyval \<Rightarrow> pystr \<Rightarrow> py_error + pyval" where
  "py_getitem d k =
     (case d of
        PDict kvs \<Rightarrow> (case map_of kvs k of Some v \<Rightarrow> Inr v | None \<Rightarrow> Inl KeyError)
      | _ \<Rightarrow> Inl TypeError)"

definition hashable :: "pyval \<Rightarrow> bool" where
  "hashable v = (case v of PList xs \<Rightarrow> False | PDict kvs \<Rightarrow> False | _ \<Rightarrow> True)"

section \<open>Messages and the client of the store\<close>

text \<open>
  An \<^verbatim>\<open>AMPS.Message\<close>, as far as the store reads it: the command, the data, and what
  the accessors of the subscription id and of the bookmark return: a text, which is
  empty for a header the message does not carry, or \<^verbatim>\<open>None\<close>, the value that
  \<^verbatim>\<open>discard_message\<close> tests for.
\<close>

record message =
  get_command :: pystr
  get_data :: pystr
  get_sub_id :: "pystr option"
  get_bookmark :: "pystr option"

text \<open>
  Modelled from the spec: the AMPS client handed to the constructor, and the server
  behind it, are not part of the repository. Section 6 of the specification gives the
  two operations the store uses, a filtered query and an upsert keyed by the record's
  key fields, both failing when the connection is unusable; the module's docstring
  gives the topic: JSON messages with the keys \<^verbatim>\<open>/clientName\<close> and \<^verbatim>\<open>/subId\<close>.

  A client is connected or not, and sees the rows of every SOW topic: the data of the
  last message published for each key. The server takes the key of a message from its
  decoded JSON object (\<open>field name d\<close> is the value of a field of the row \<open>d\<close>); a
  message that is not a JSON object is not stored, and the publisher is not told (the
  docstring: no exception when the client is connected but fails to write).
\<close>

record amps_client =
  connected :: bool
  sow_topics :: "pystr \<Rightarrow> pystr list"

definition field :: "pystr \<Rightarrow> pystr \<Rightarrow> pyval option" where
  "field name d =
     (case json_loads d of
        Inr (PDict kvs) \<Rightarrow> map_of kvs name
      | _ \<Rightarrow> None)"

definition sow_key :: "pystr \<Rightarrow> (pyval option \<times> pyval option) option" where
  "sow_key d =
     (case json_loads d of
        Inr (PDict kvs) \<Rightarrow> Some (field (str ''clientName'') d, field (str ''subId'') d)
      | _ \<Rightarrow> None)"

definition sow_upsert :: "pystr \<Rightarrow> pystr list \<Rightarrow> pystr list" where
  "sow_upsert d rows =
     (if sow_key d = None then rows
      else if sow_key d \<in> set (map sow_key rows)
      then map (\<lambda>r. if sow_key r = sow_key d then d else r) rows
      else rows @ [d])"

definition disconnected :: py_error where
  "disconnected = AMPSException (str ''Client is not connected'') None"

definition client_publish :: "amps_client \<Rightarrow> pystr \<Rightarrow> pystr \<Rightarrow> py_error + amps_client" where
  "client_publish client topic d =
     (if connected client
      then Inr (client\<lparr>sow_topics :=
                  (sow_topics client)(topic := sow_upsert d (sow_topics client topic))\<rparr>)
      else Inl disconnected)"

text \<open>
  The query. The server reads the filter as an expression of its own language, whatever
  way the text was made. Of that language the model reads the comparison of the field
  \<^verbatim>\<open>/clientName\<close> with a text between single quotes, \<^verbatim>\<open>/clientName = 'NAME'\<close>, with
  spaces allowed around its parts (32 is the code of the space, 61 of the equals sign,
  39 of the quote). The text ends at the first quote after the opening one, and
  nothing but spaces may follow it: \<open>read_filter\<close> gives the text \<^verbatim>\<open>NAME\<close>. A filter
  that does not read so is refused with an exception. The answer to a filter that
  reads is a \<^verbatim>\<open>group_begin\<close> message, one \<^verbatim>\<open>sow\<close> message for each row whose
  \<^verbatim>\<open>clientName\<close> is the text \<^verbatim>\<open>NAME\<close>, and a \<^verbatim>\<open>group_end\<close> message.
\<close>

definition read_filter :: "pystr \<Rightarrow> pystr option" where
  "read_filter flt =
     (let r0 = dropWhile (\<lambda>c. c = 32) flt;
          r1 = dropWhile (\<lambda>c. c = 32) (drop 11 r0);
          r2 = dropWhile (\<lambda>c. c = 32) (drop 1 r1);
          lit = takeWhile (\<lambda>c. c \<noteq> 39) (drop 1 r2);
          r3 = dropWhile (\<lambda>c. c \<noteq> 39) (drop 1 r2)
      in if take 11 r0 = str ''/clientName'' \<and> take 1 r1 = [61] \<and> take 1 r2 = [39]
            \<and> take 1 r3 = [39] \<and> dropWhile (\<lambda>c. c = 32) (drop 1 r3) = []
         then Some lit else None)"

definition bad_filter :: py_error where
  "bad_filter = AMPSException (str ''Bad filter'') None"

definition selects :: "pystr \<Rightarrow> pystr \<Rightarrow> bool" where
  "selects name d = (field (str ''clientName'') d = Some (PStr name))"

definition control_message :: "pystr \<Rightarrow> message" where
  "control_message c =
     \<lparr>get_command = c, get_data = [], get_sub_id = None, get_bookmark = None\<rparr>"

definition sow_message :: "pystr \<Rightarrow> message" where
  "sow_message d =
     \<lparr>get_command = str ''sow'', get_data = d, get_sub_id = None, get_bookmark = None\<rparr>"

definition client_sow :: "amps_client \<Rightarrow> pystr \<Rightarrow> pystr \<Rightarrow> py_error + message list" where
  "client_sow client topic flt =
     (if connected client
      then
        (case read_filter flt of
           None \<Rightarrow> Inl bad_filter
         | Some name \<Rightarrow>
             Inr (control_message (str ''group_begin'')
                  # map sow_message (filter (selects name) (sow_topics client topic))
                  @ [control_message (str ''group_end'')]))
      else Inl disconnected)"

section \<open>The class sow_bookmark_store\<close>

text \<open>
  The fields of an instance. The field \<^verbatim>\<open>_internalClient\<close> refers to the client, which
  other instances may share and whose server changes with every publish: the client
  is an argument and a result of every method instead. The dictionary has the decoded
  values for keys; Python takes the keys \<^verbatim>\<open>1\<close>, \<^verbatim>\<open>1.0\<close> and \<^verbatim>\<open>True\<close> for one key, the
  model keeps them apart, and \<^verbatim>\<open>get_most_recent\<close> looks up texts only.
\<close>

record sow_bookmark_store =
  trackedName :: pystr
  topic :: pystr
  mostRecentBookmark :: "pyval \<rightharpoonup> pyval"

text \<open>
  What a method call leaves: the value returned or the exception raised, the instance
  and the client.
\<close>

type_synonym outcome = "(py_error + pyval) \<times> sow_bookmark_store \<times> amps_client"

text \<open>
  \<^verbatim>\<open>except AMPS.AMPSException as aex: raise AMPS.AMPSException(text, aex)\<close>: an AMPS
  exception is wrapped, any other exception passes.
\<close>

definition reraise :: "pystr \<Rightarrow> py_error \<Rightarrow> py_error" where
  "reraise text e = (case e of AMPSException a c \<Rightarrow> AMPSException text (Some e) | _ \<Rightarrow> e)"

text \<open>
  The filter that the constructor sends, \<^verbatim>\<open>"/clientName = '%s'" % self._trackedName\<close>:
  the name is put between the quotes as it is (39 is the code of the quote).
\<close>

definition client_name_filter :: "pystr \<Rightarrow> pystr" where
  "client_name_filter name = str ''/clientName = '' @ [39] @ name @ [39]"

text \<open>The loop of the constructor over the messages of the query.\<close>

fun init_loop :: "(pyval \<rightharpoonup> pyval) \<Rightarrow> message list \<Rightarrow> py_error + (pyval \<rightharpoonup> pyval)" where
  "init_loop m [] = Inr m"
| "init_loop m (message # messages) =
     (if get_command message \<noteq> str ''sow'' then init_loop m messages
      else
        (case json_loads (get_data message) of
           Inl e \<Rightarrow> Inl e
         | Inr bookmark_data \<Rightarrow>
             (case py_contains (str ''bookmark'') bookmark_data of
                Inl e \<Rightarrow> Inl e
              | Inr False \<Rightarrow> init_loop m messages
              | Inr True \<Rightarrow>
                  (case py_contains (str ''subId'') bookmark_data of
                     Inl e \<Rightarrow> Inl e
                   | Inr False \<Rightarrow> init_loop m messages
                   | Inr True \<Rightarrow>
                       (case py_getitem bookmark_data (str ''bookmark'') of
                          Inl e \<Rightarrow> Inl e
                        | Inr b \<Rightarrow>
                            (case py_getitem bookmark_data (str ''subId'') of
                               Inl e \<Rightarrow> Inl e
                             | Inr k \<Rightarrow>
                                 if hashable k then init_loop (m(k \<mapsto> b)) messages
                                 else Inl TypeError))))))"

definition init :: "amps_client \<Rightarrow> pystr \<Rightarrow> pystr \<Rightarrow> py_error + sow_bookmark_store" where
  "init bookmark_client topic_name tracked_client_name =
     (case client_sow bookmark_client topic_name (client_name_filter tracked_client_name) of
        Inl aex \<Rightarrow> Inl (reraise (str ''Error reading bookmark store'') aex)
      | Inr messages \<Rightarrow>
          (case init_loop Map.empty messages of
             Inl e \<Rightarrow> Inl (reraise (str ''Error reading bookmark store'') e)
           | Inr m \<Rightarrow>
               Inr \<lparr>trackedName = tracked_client_name, topic = topic_name,
                    mostRecentBookmark = m\<rparr>))"

definition set_server_version :: "sow_bookmark_store \<Rightarrow> int \<Rightarrow> amps_client \<Rightarrow> outcome" where
  "set_server_version self version client = (Inr PNone, self, client)"

definition get_most_recent :: "sow_bookmark_store \<Rightarrow> pystr \<Rightarrow> amps_client \<Rightarrow> outcome" where
  "get_most_recent self subid client =
     (case mostRecentBookmark self (PStr subid) of
        Some b \<Rightarrow> (Inr b, self, client)
      | None \<Rightarrow> (Inr (PStr (str ''0'')), self, client))"

definition is_discarded :: "sow_bookmark_store \<Rightarrow> message \<Rightarrow> amps_client \<Rightarrow> outcome" where
  "is_discarded self message client = (Inr (PBool False), self, client)"

definition log :: "sow_bookmark_store \<Rightarrow> message \<Rightarrow> amps_client \<Rightarrow> outcome" where
  "log self message client = (Inr (PStr (str ''1'')), self, client)"

definition persisted :: "sow_bookmark_store \<Rightarrow> pystr \<Rightarrow> pystr \<Rightarrow> amps_client \<Rightarrow> outcome" where
  "persisted self subid bookmark client = (Inr PNone, self, client)"

text \<open>
  The record that \<^verbatim>\<open>discard_message\<close> publishes: the three texts are put between the
  quotes as they are.
\<close>

definition bookmark_record :: "pystr \<Rightarrow> pystr \<Rightarrow> pystr \<Rightarrow> pystr" where
  \<open>bookmark_record name subid bookmark =
     str ''{"clientName": "'' @ name @ str ''", "subId": "'' @ subid
       @ str ''", "bookmark": "'' @ bookmark @ str ''"}''\<close>

definition discard_message :: "sow_bookmark_store \<Rightarrow> message \<Rightarrow> amps_client \<Rightarrow> outcome" where
  "discard_message self message client =
     (case get_bookmark message of
        None \<Rightarrow> (Inr PNone, self, client)
      | Some bookmark \<Rightarrow>
          (case get_sub_id message of
             None \<Rightarrow> (Inr PNone, self, client)
           | Some subid \<Rightarrow>
               (case client_publish client (topic self)
                       (bookmark_record (trackedName self) subid bookmark) of
                  Inl aex \<Rightarrow>
                    (Inl (reraise (str ''Error updating bookmark store'') aex), self, client)
                | Inr client' \<Rightarrow>
                    (Inr PNone,
                     self\<lparr>mostRecentBookmark :=
                       (mostRecentBookmark self)(PStr subid \<mapsto> PStr bookmark)\<rparr>,
                     client'))))"

definition discard :: "sow_bookmark_store \<Rightarrow> pystr \<Rightarrow> pystr \<Rightarrow> amps_client \<Rightarrow> outcome" where
  "discard self subid seqnumber client = (Inr PNone, self, client)"

section \<open>What the properties speak of\<close>

text \<open>
  The subscriber discards its messages one after the other, in the order of delivery
  (\<^verbatim>\<open>example.py\<close>: the handler calls \<^verbatim>\<open>discard\<close> for each message and gives up at the
  first exception). \<open>last_discarded subid messages\<close> is the bookmark of the last of
  the messages that carries the subscription id \<open>subid\<close> and a bookmark.
\<close>

fun discard_all :: "sow_bookmark_store \<Rightarrow> message list \<Rightarrow> amps_client \<Rightarrow> outcome" where
  "discard_all self [] client = (Inr PNone, self, client)"
| "discard_all self (message # messages) client =
     (case discard_message self message client of
        (Inl e, self', client') \<Rightarrow> (Inl e, self', client')
      | (Inr r, self', client') \<Rightarrow> discard_all self' messages client')"

fun last_discarded :: "pystr \<Rightarrow> message list \<Rightarrow> pystr option" where
  "last_discarded subid [] = None"
| "last_discarded subid (message # messages) =
     (case last_discarded subid messages of
        Some b \<Rightarrow> Some b
      | None \<Rightarrow>
          if get_sub_id message = Some subid then get_bookmark message else None)"

text \<open>
  A message of the query whose data is a JSON object without the field \<^verbatim>\<open>bookmark\<close>
  or without the field \<^verbatim>\<open>subId\<close>.
\<close>

definition lacks_field :: "message \<Rightarrow> bool" where
  "lacks_field message =
     (case json_loads (get_data message) of
        Inr (PDict kvs) \<Rightarrow>
          map_of kvs (str ''bookmark'') = None \<or> map_of kvs (str ''subId'') = None
      | _ \<Rightarrow> False)"

text \<open>
  The bookmark record of the specification (section 3) that a row of the topic holds:
  a JSON object whose \<^verbatim>\<open>clientName\<close>, \<^verbatim>\<open>subId\<close> and \<^verbatim>\<open>bookmark\<close> are texts.
  \<open>insert_records m rows\<close> is the dictionary \<open>m\<close> after the \<^verbatim>\<open>subId\<close> of each of the rows
  has been given its \<^verbatim>\<open>bookmark\<close>, in order (section 4.1 of the specification).
\<close>

definition record_of :: "pystr \<Rightarrow> (pystr \<times> pystr \<times> pystr) option" where
  "record_of d =
     (case (field (str ''clientName'') d, field (str ''subId'') d, field (str ''bookmark'') d) of
        (Some (PStr c), Some (PStr s), Some (PStr b)) \<Rightarrow> Some (c, s, b)
      | _ \<Rightarrow> None)"

fun insert_records :: "(pyval \<rightharpoonup> pyval) \<Rightarrow> pystr list \<Rightarrow> (pyval \<rightharpoonup> pyval)" where
  "insert_records m [] = m"
| "insert_records m (d # ds) =
     insert_records
       (case record_of d of Some (c, s, b) \<Rightarrow> m(PStr s \<mapsto> PStr b) | None \<Rightarrow> m) ds"

text \<open>
  A text that a JSON string literal holds as it is: no quote, no backslash, no control
  character.
\<close>

definition json_safe :: "pystr \<Rightarrow> bool" where
  "json_safe s = list_all (\<lambda>c. c \<noteq> 34 \<and> c \<noteq> 92 \<and> 32 \<le> c) s"

text \<open>
  The end-to-end scenario of the specification (section 8): an instance is constructed
  for the client \<open>name\<close>, a message is discarded through it, a fresh instance is
  constructed over the same store for the same client and asked for the most recent
  bookmark of \<open>subid\<close>.
\<close>

definition recover_after_discard ::
  "amps_client \<Rightarrow> pystr \<Rightarrow> pystr \<Rightarrow> message \<Rightarrow> pystr \<Rightarrow> py_error + pyval" where
  "recover_after_discard client t name message subid =
     (case init client t name of
        Inl e \<Rightarrow> Inl e
      | Inr self \<Rightarrow>
          (case discard_message self message client of
             (Inl e, self', client') \<Rightarrow> Inl e
           | (Inr r, self', client') \<Rightarrow>
               (case init client' t name of
                  Inl e \<Rightarrow> Inl e
                | Inr fresh \<Rightarrow> fst (get_most_recent fresh subid client'))))"

text \<open>The rows of a topic whose key is the pair of a client name and a subscription id.\<close>

definition rows_of :: "pystr \<Rightarrow> pystr \<Rightarrow> pystr list \<Rightarrow> pystr list" where
  "rows_of name subid rows =
     filter (\<lambda>d. sow_key d = Some (Some (PStr name), Some (PStr subid))) rows"

section \<open>Discarding messages\<close>

lemma discard_message_step:
  "discard_message self message client = (Inr r, self', client') \<Longrightarrow>
   fst (get_most_recent self' subid client') =
     (if get_sub_id message = Some subid \<and> get_bookmark message \<noteq> None
      then Inr (PStr (the (get_bookmark message)))
      else fst (get_most_recent self subid client))"
  by (auto simp: discard_message_def get_most_recent_def
           split: option.splits sum.splits)

lemma discard_message_connected:
  "connected client \<Longrightarrow>
   \<exists>self' client'. discard_message self message client = (Inr PNone, self', client')
       \<and> connected client'"
  by (simp add: discard_message_def client_publish_def split: option.splits)

lemma discard_all_connected:
  "connected client \<Longrightarrow>
   \<exists>r self' client'. discard_all self messages client = (Inr r, self', client')"
proof (induction messages arbitrary: self client)
  case Nil
  then show ?case by simp
next
  case (Cons message messages)
  from discard_message_connected [OF Cons.prems, of self message]
  obtain s1 c1 where "discard_message self message client = (Inr PNone, s1, c1)"
    and "connected c1" by blast
  with Cons.IH [of c1 s1] show ?case by simp
qed

text \<open>
  C1. When the messages of a sequence have been discarded one after the other and
  every call has returned, \<^verbatim>\<open>get_most_recent\<close> gives, for each subscription id, the
  bookmark of the last message discarded for it (and what it gave before the sequence
  when no message of the sequence belongs to the subscription). Every prefix of a
  sequence is a sequence, so this holds after each call.
\<close>

theorem discard_sequence_most_recent:
  "discard_all self messages client = (Inr r, self', client') \<Longrightarrow>
   fst (get_most_recent self' subid client') =
     (case last_discarded subid messages of
        Some b \<Rightarrow> Inr (PStr b)
      | None \<Rightarrow> fst (get_most_recent self subid client))"
proof (induction messages arbitrary: self client)
  case Nil
  then show ?case by (simp add: get_most_recent_def)
next
  case (Cons message messages)
  obtain r1 s1 c1 where
    step: "discard_message self message client = (Inr r1, s1, c1)"
    and rest: "discard_all s1 messages c1 = (Inr r, self', client')"
    using Cons.prems
    by (cases "discard_message self message client") (auto split: sum.splits)
  show ?case
    using Cons.IH [OF rest] discard_message_step [OF step, of subid]
    by (auto split: option.splits)
qed

theorem discard_sequence_most_recent_witness:
  "\<exists>r self' client'.
     discard_all
       \<lparr>trackedName = str ''haclient'', topic = str ''/amps/bookmarkStore'',
        mostRecentBookmark = Map.empty\<rparr>
       [\<lparr>get_command = str ''publish'', get_data = str ''{}'',
         get_sub_id = Some (str ''orders-1''), get_bookmark = Some (str ''41'')\<rparr>,
        \<lparr>get_command = str ''publish'', get_data = str ''{}'',
         get_sub_id = Some (str ''orders-2''), get_bookmark = Some (str ''7'')\<rparr>,
        \<lparr>get_command = str ''publish'', get_data = str ''{}'',
         get_sub_id = Some (str ''orders-1''), get_bookmark = Some (str ''42'')\<rparr>]
       \<lparr>connected = True, sow_topics = (\<lambda>t. [])\<rparr> = (Inr r, self', client')
     \<and> fst (get_most_recent self' (str ''orders-1'') client') = Inr (PStr (str ''42''))"
proof -
  let ?self = "\<lparr>trackedName = str ''haclient'', topic = str ''/amps/bookmarkStore'',
        mostRecentBookmark = Map.empty\<rparr>"
  let ?ms = "[\<lparr>get_command = str ''publish'', get_data = str ''{}'',
         get_sub_id = Some (str ''orders-1''), get_bookmark = Some (str ''41'')\<rparr>,
        \<lparr>get_command = str ''publish'', get_data = str ''{}'',
         get_sub_id = Some (str ''orders-2''), get_bookmark = Some (str ''7'')\<rparr>,
        \<lparr>get_command = str ''publish'', get_data = str ''{}'',
         get_sub_id = Some (str ''orders-1''), get_bookmark = Some (str ''42'')\<rparr>]"
  let ?client = "\<lparr>connected = True, sow_topics = (\<lambda>t. [])\<rparr>"
  obtain r self' client' where run: "discard_all ?self ?ms ?client = (Inr r, self', client')"
    using discard_all_connected [of ?client ?self ?ms] by auto
  from discard_sequence_most_recent [OF run, of "str ''orders-1''"]
  have "fst (get_most_recent self' (str ''orders-1'') client') = Inr (PStr (str ''42''))"
    by (simp add: str_def)
  with run show ?thesis by blast
qed

lemma client_publish_error:
  "client_publish client t d = Inl aex \<Longrightarrow> aex = disconnected"
  by (auto simp: client_publish_def split: if_splits)

text \<open>
  C4. When the publish of \<^verbatim>\<open>discard_message\<close> raises, the call raises an
  \<^verbatim>\<open>AMPSException\<close> that carries the text "Error updating bookmark store" and the
  exception of the client, and the instance, its dictionary with it, and the client
  are as before the call.
\<close>

theorem discard_message_publish_fails:
  assumes "get_sub_id message = Some subid"
    and "get_bookmark message = Some bookmark"
    and "client_publish client (topic self)
           (bookmark_record (trackedName self) subid bookmark) = Inl aex"
  shows "discard_message self message client =
           (Inl (AMPSException (str ''Error updating bookmark store'') (Some aex)), self, client)"
  using assms client_publish_error [OF assms(3)]
  by (simp add: discard_message_def reraise_def disconnected_def)

theorem discard_message_publish_fails_witness:
  "discard_message
     \<lparr>trackedName = str ''haclient'', topic = str ''/amps/bookmarkStore'',
      mostRecentBookmark = [PStr (str ''orders-1'') \<mapsto> PStr (str ''41'')]\<rparr>
     \<lparr>get_command = str ''publish'', get_data = str ''{}'',
      get_sub_id = Some (str ''orders-1''), get_bookmark = Some (str ''42'')\<rparr>
     \<lparr>connected = False, sow_topics = (\<lambda>t. [])\<rparr>
   = (Inl (AMPSException (str ''Error updating bookmark store'') (Some disconnected)),
      \<lparr>trackedName = str ''haclient'', topic = str ''/amps/bookmarkStore'',
       mostRecentBookmark = [PStr (str ''orders-1'') \<mapsto> PStr (str ''41'')]\<rparr>,
      \<lparr>connected = False, sow_topics = (\<lambda>t. [])\<rparr>)"
  by (rule discard_message_publish_fails [where subid = "str ''orders-1''" and bookmark = "str ''42''"])
     (simp_all add: client_publish_def)

text \<open>
  What the guard of \<^verbatim>\<open>discard_message\<close> does: when the subscription id or the bookmark
  is \<^verbatim>\<open>None\<close>, the call returns and leaves the instance and the client as they were.
\<close>

lemma discard_message_none:
  "get_sub_id message = None \<or> get_bookmark message = None \<Longrightarrow>
   discard_message self message client = (Inr PNone, self, client)"
  by (auto simp: discard_message_def split: option.splits)

text \<open>
  C5 fails on the code. The guard tests \<^verbatim>\<open>is None\<close> only, and the empty text is not
  \<^verbatim>\<open>None\<close>. A message without a subscription id, whose accessor gives the empty text,
  is published and entered in the dictionary under the empty subscription id; a
  message of the subscription \<^verbatim>\<open>orders-1\<close> without a bookmark is published and puts the
  empty text in the place of the bookmark 41 that the dictionary held. The claim has
  both calls leave the dictionary and the store as they were.
\<close>

theorem discard_message_empty_field:
  \<open>mostRecentBookmark (fst (snd (discard_message
     \<lparr>trackedName = str ''haclient'', topic = str ''/amps/bookmarkStore'',
      mostRecentBookmark = Map.empty\<rparr>
     \<lparr>get_command = str ''publish'', get_data = str ''{}'',
      get_sub_id = Some [], get_bookmark = Some (str ''42'')\<rparr>
     \<lparr>connected = True, sow_topics = (\<lambda>t. [])\<rparr>))) (PStr [])
    = Some (PStr (str ''42''))
   \<and> sow_topics (snd (snd (discard_message
     \<lparr>trackedName = str ''haclient'', topic = str ''/amps/bookmarkStore'',
      mostRecentBookmark = Map.empty\<rparr>
     \<lparr>get_command = str ''publish'', get_data = str ''{}'',
      get_sub_id = Some [], get_bookmark = Some (str ''42'')\<rparr>
     \<lparr>connected = True, sow_topics = (\<lambda>t. [])\<rparr>))) (str ''/amps/bookmarkStore'')
    = [str ''{"clientName": "haclient", "subId": "", "bookmark": "42"}'']
   \<and> fst (get_most_recent (fst (snd (discard_message
     \<lparr>trackedName = str ''haclient'', topic = str ''/amps/bookmarkStore'',
      mostRecentBookmark = [PStr (str ''orders-1'') \<mapsto> PStr (str ''41'')]\<rparr>
     \<lparr>get_command = str ''publish'', get_data = str ''{}'',
      get_sub_id = Some (str ''orders-1''), get_bookmark = Some []\<rparr>
     \<lparr>connected = True, sow_topics = (\<lambda>t. [])\<rparr>))) (str ''orders-1'')
       \<lparr>connected = True, sow_topics = (\<lambda>t. [])\<rparr>)
    = Inr (PStr [])
   \<and> sow_topics (snd (snd (discard_message
     \<lparr>trackedName = str ''haclient'', topic = str ''/amps/bookmarkStore'',
      mostRecentBookmark = [PStr (str ''orders-1'') \<mapsto> PStr (str ''41'')]\<rparr>
     \<lparr>get_command = str ''publish'', get_data = str ''{}'',
      get_sub_id = Some (str ''orders-1''), get_bookmark = Some []\<rparr>
     \<lparr>connected = True, sow_topics = (\<lambda>t. [])\<rparr>))) (str ''/amps/bookmarkStore'')
    = [str ''{"clientName": "haclient", "subId": "orders-1", "bookmark": ""}'']\<close>
  by code_simp

text \<open>
  C9. The deprecated method \<^verbatim>\<open>discard(subid, seqnumber)\<close> returns \<^verbatim>\<open>None\<close> and leaves the
  instance and the client as they were, whatever its arguments.
\<close>

theorem discard_noop:
  "discard self subid seqnumber client = (Inr PNone, self, client)"
  by (simp add: discard_def)

section \<open>Reading the index\<close>

text \<open>
  C7. For a subscription id without an entry in the dictionary, \<^verbatim>\<open>get_most_recent\<close>
  returns the text "0", raises nothing and leaves the instance and the client as they
  were.
\<close>

theorem get_most_recent_epoch:
  "mostRecentBookmark self (PStr subid) = None \<Longrightarrow>
   get_most_recent self subid client = (Inr (PStr (str ''0'')), self, client)"
  by (simp add: get_most_recent_def)

theorem get_most_recent_epoch_witness:
  "get_most_recent
     \<lparr>trackedName = str ''haclient'', topic = str ''/amps/bookmarkStore'',
      mostRecentBookmark = [PStr (str ''orders-1'') \<mapsto> PStr (str ''42'')]\<rparr>
     (str ''orders-2'') \<lparr>connected = True, sow_topics = (\<lambda>t. [])\<rparr>
   = (Inr (PStr (str ''0'')),
      \<lparr>trackedName = str ''haclient'', topic = str ''/amps/bookmarkStore'',
       mostRecentBookmark = [PStr (str ''orders-1'') \<mapsto> PStr (str ''42'')]\<rparr>,
      \<lparr>connected = True, sow_topics = (\<lambda>t. [])\<rparr>)"
  by (rule get_most_recent_epoch) (simp add: str_def)

text \<open>
  C8. \<^verbatim>\<open>is_discarded\<close> returns \<^verbatim>\<open>False\<close> for every message and every state of the
  instance, and leaves the instance and the client as they were.
\<close>

theorem is_discarded_false:
  "is_discarded self message client = (Inr (PBool False), self, client)"
  by (simp add: is_discarded_def)

section \<open>Recovery\<close>

lemma read_client_name_filter:
  "39 \<notin> set name \<Longrightarrow> read_filter (client_name_filter name) = Some name"
proof -
  assume "39 \<notin> set name"
  then have plain: "x \<noteq> 39" if "x \<in> set name" for x
    using that by auto
  have "takeWhile (\<lambda>c. c \<noteq> 39) (name @ [39]) = name"
    using takeWhile_append2 [of name "\<lambda>c. c \<noteq> 39" "[39]"] plain by simp
  moreover have "dropWhile (\<lambda>c. c \<noteq> 39) (name @ [39]) = [39]"
    using dropWhile_append2 [of name "\<lambda>c. c \<noteq> 39" "[39]"] plain by simp
  ultimately show ?thesis
    by (simp add: read_filter_def client_name_filter_def str_def)
qed

lemma record_of_fields:
  "record_of d = Some (c, s, b) \<longleftrightarrow>
     field (str ''clientName'') d = Some (PStr c) \<and> field (str ''subId'') d = Some (PStr s)
     \<and> field (str ''bookmark'') d = Some (PStr b)"
  by (auto simp: record_of_def split: option.splits pyval.splits)

lemma field_Some_loads:
  "field name d = Some v \<Longrightarrow> \<exists>kvs. json_loads d = Inr (PDict kvs) \<and> map_of kvs name = Some v"
  by (auto simp: field_def split: sum.splits pyval.splits)

lemma init_loop_record:
  assumes "record_of d = Some (c, s, b)"
  shows "init_loop m (sow_message d # rest) = init_loop (m(PStr s \<mapsto> PStr b)) rest"
proof -
  from assms have fs: "field (str ''subId'') d = Some (PStr s)"
    and fb: "field (str ''bookmark'') d = Some (PStr b)"
    by (simp_all add: record_of_fields)
  from field_Some_loads [OF fs] obtain kvs where
    kvs: "json_loads d = Inr (PDict kvs)" and s: "map_of kvs (str ''subId'') = Some (PStr s)"
    by blast
  from fb kvs have b: "map_of kvs (str ''bookmark'') = Some (PStr b)"
    by (simp add: field_def)
  show ?thesis
    using kvs s b
    by (simp add: sow_message_def py_contains_def py_getitem_def hashable_def)
qed

lemma init_loop_records:
  "\<forall>d\<in>set ds. record_of d \<noteq> None \<Longrightarrow>
   init_loop m (map sow_message ds @ rest) = init_loop (insert_records m ds) rest"
proof (induction ds arbitrary: m)
  case Nil
  then show ?case by simp
next
  case (Cons d ds)
  then obtain c s b where r: "record_of d = Some (c, s, b)" by auto
  from Cons have "init_loop (m(PStr s \<mapsto> PStr b)) (map sow_message ds @ rest)
      = init_loop (insert_records (m(PStr s \<mapsto> PStr b)) ds) rest"
    by simp
  with init_loop_record [OF r, of m "map sow_message ds @ rest"] r
  show ?case by simp
qed

lemma init_loop_control:
  "c \<noteq> str ''sow'' \<Longrightarrow> init_loop m (control_message c # rest) = init_loop m rest"
  by (simp add: control_message_def)

lemma insert_records_source:
  "insert_records m ds k = Some v \<Longrightarrow>
   m k = Some v \<or> (\<exists>d\<in>set ds. \<exists>c s b. record_of d = Some (c, s, b) \<and> k = PStr s \<and> v = PStr b)"
proof (induction ds arbitrary: m)
  case Nil
  then show ?case by simp
next
  case (Cons d ds)
  show ?case
  proof (cases "record_of d")
    case None
    with Cons.prems Cons.IH [of m] show ?thesis by auto
  next
    case (Some r)
    obtain c s b where r: "r = (c, s, b)" by (cases r)
    from Cons.prems Some r
    have "insert_records (m(PStr s \<mapsto> PStr b)) ds k = Some v" by simp
    from Cons.IH [OF this] Some r show ?thesis
      by (auto split: if_splits)
  qed
qed

lemma insert_records_lookup:
  assumes "\<forall>d\<in>set ds. \<forall>c b'. record_of d = Some (c, s, b') \<longrightarrow> b' = b"
    and "(\<exists>d\<in>set ds. \<exists>c. record_of d = Some (c, s, b)) \<or> m (PStr s) = Some (PStr b)"
  shows "insert_records m ds (PStr s) = Some (PStr b)"
  using assms
proof (induction ds arbitrary: m)
  case Nil
  then show ?case by simp
next
  case (Cons d ds)
  let ?m = "case record_of d of Some (c, s, b) \<Rightarrow> m(PStr s \<mapsto> PStr b) | None \<Rightarrow> m"
  have either: "(\<exists>d\<in>set ds. \<exists>c. record_of d = Some (c, s, b)) \<or> ?m (PStr s) = Some (PStr b)"
  proof (cases "\<exists>d\<in>set ds. \<exists>c. record_of d = Some (c, s, b)")
    case True
    then show ?thesis by simp
  next
    case False
    with Cons.prems(2) have here: "(\<exists>c. record_of d = Some (c, s, b)) \<or> m (PStr s) = Some (PStr b)"
      by auto
    show ?thesis
    proof (cases "record_of d")
      case None
      with here show ?thesis by simp
    next
      case (Some r)
      obtain c' s' b' where r: "r = (c', s', b')" by (cases r)
      show ?thesis
      proof (cases "s' = s")
        case True
        with Cons.prems(1) Some r have "b' = b" by auto
        with Some r True show ?thesis by simp
      next
        case False
        with here Some r show ?thesis by auto
      qed
    qed
  qed
  from Cons.prems(1) have "\<forall>d\<in>set ds. \<forall>c b'. record_of d = Some (c, s, b') \<longrightarrow> b' = b"
    by simp
  with either Cons.IH [of ?m] show ?case by simp
qed

lemma sow_key_record:
  "record_of d = Some (c, s, b) \<Longrightarrow> sow_key d = Some (Some (PStr c), Some (PStr s))"
  by (auto simp: record_of_fields sow_key_def field_def split: sum.splits pyval.splits)

lemma init_connected:
  assumes "connected client"
    and "\<forall>d\<in>set (sow_topics client t).
           field (str ''clientName'') d = Some (PStr C) \<longrightarrow> record_of d \<noteq> None"
    and "39 \<notin> set C"
  shows "init client t C =
           Inr \<lparr>trackedName = C, topic = t,
                mostRecentBookmark =
                  insert_records Map.empty
                    (filter (selects C) (sow_topics client t))\<rparr>"
proof -
  let ?ds = "filter (selects C) (sow_topics client t)"
  from assms(2) have "\<forall>d\<in>set ?ds. record_of d \<noteq> None"
    by (simp add: selects_def)
  then have wf: "\<forall>d\<in>set ?ds. record_of d \<noteq> None" .
  have gb: "str ''group_begin'' \<noteq> str ''sow''" and ge: "str ''group_end'' \<noteq> str ''sow''"
    by (simp_all add: str_def)
  have "init_loop Map.empty
          (control_message (str ''group_begin'') # map sow_message ?ds
            @ [control_message (str ''group_end'')])
        = init_loop Map.empty (map sow_message ?ds @ [control_message (str ''group_end'')])"
    by (rule init_loop_control [OF gb])
  also have "\<dots> = init_loop (insert_records Map.empty ?ds) [control_message (str ''group_end'')]"
    by (rule init_loop_records [OF wf])
  also have "\<dots> = init_loop (insert_records Map.empty ?ds) []"
    by (rule init_loop_control [OF ge])
  finally have "init_loop Map.empty
          (control_message (str ''group_begin'') # map sow_message ?ds
            @ [control_message (str ''group_end'')])
        = Inr (insert_records Map.empty ?ds)"
    by simp
  with assms(1) read_client_name_filter [OF assms(3)] show ?thesis
    by (simp add: init_def client_sow_def)
qed

lemma recovered_row:
  assumes "distinct (map sow_key rows)"
    and "d \<in> set rows"
    and "record_of d = Some (C, S, B)"
  shows "insert_records Map.empty (filter (selects C) rows) (PStr S)
           = Some (PStr B)"
proof -
  let ?ds = "filter (selects C) rows"
  have inj: "inj_on sow_key (set rows)"
    using assms(1) by (simp add: distinct_map)
  have "d \<in> set ?ds"
    using assms(2,3) by (simp add: selects_def record_of_fields)
  then have one: "\<exists>d\<in>set ?ds. \<exists>c. record_of d = Some (c, S, B)"
    using assms(3) by blast
  have same: "\<forall>d'\<in>set ?ds. \<forall>c b'. record_of d' = Some (c, S, b') \<longrightarrow> b' = B"
  proof (intro ballI allI impI)
    fix d' c b'
    assume d': "d' \<in> set ?ds" and r': "record_of d' = Some (c, S, b')"
    from d' have d'': "d' \<in> set rows" and "field (str ''clientName'') d' = Some (PStr C)"
      by (simp_all add: selects_def)
    with r' have "c = C" by (simp add: record_of_fields)
    with assms(3) r' have "sow_key d' = sow_key d" by (simp add: sow_key_record)
    with inj assms(2) d'' have "d' = d" by (auto dest: inj_onD)
    with assms(3) r' show "b' = B" by simp
  qed
  from insert_records_lookup [OF same, of Map.empty] one show ?thesis by simp
qed

lemma recovered_entry:
  assumes "insert_records Map.empty (filter (selects C) rows) k = Some v"
  shows "\<exists>d\<in>set rows. \<exists>S B. record_of d = Some (C, S, B) \<and> k = PStr S \<and> v = PStr B"
proof -
  let ?ds = "filter (selects C) rows"
  from assms insert_records_source [of Map.empty ?ds k v]
  obtain d c s b where d: "d \<in> set ?ds" and r: "record_of d = Some (c, s, b)"
    and kv: "k = PStr s" "v = PStr b" by auto
  from d have d': "d \<in> set rows" and "field (str ''clientName'') d = Some (PStr C)"
    by (simp_all add: selects_def)
  with r have "c = C" by (simp add: record_of_fields)
  with d' r kv show ?thesis by blast
qed

text \<open>
  Recovery for a tracked client \<open>C\<close> whose name has no quote. Over a connected store in
  which every row of \<open>C\<close> is a bookmark record, with one row for each key, the
  constructor returns an instance in which \<^verbatim>\<open>get_most_recent\<close> gives, for every row of
  \<open>C\<close>, the bookmark of the row for its subscription id; and every entry of the
  dictionary comes from a row of \<open>C\<close>: the rows of other clients leave nothing in it.
\<close>

lemma init_recovers:
  assumes "connected client"
    and "\<forall>d\<in>set (sow_topics client t).
           field (str ''clientName'') d = Some (PStr C) \<longrightarrow> record_of d \<noteq> None"
    and "distinct (map sow_key (sow_topics client t))"
    and "39 \<notin> set C"
  shows "\<exists>self. init client t C = Inr self
      \<and> (\<forall>d\<in>set (sow_topics client t). \<forall>S B. record_of d = Some (C, S, B) \<longrightarrow>
            get_most_recent self S client = (Inr (PStr B), self, client))
      \<and> (\<forall>k v. mostRecentBookmark self k = Some v \<longrightarrow>
            (\<exists>d\<in>set (sow_topics client t). \<exists>S B.
               record_of d = Some (C, S, B) \<and> k = PStr S \<and> v = PStr B))"
proof -
  let ?rows = "sow_topics client t"
  let ?self = "\<lparr>trackedName = C, topic = t,
    mostRecentBookmark = insert_records Map.empty (filter (selects C) ?rows)\<rparr>"
  have init: "init client t C = Inr ?self"
    using assms(1,2,4) by (rule init_connected)
  have found: "get_most_recent ?self S client = (Inr (PStr B), ?self, client)"
    if "d \<in> set ?rows" and "record_of d = Some (C, S, B)" for d S B
    using recovered_row [OF assms(3) that] by (simp add: get_most_recent_def)
  have only: "\<exists>d\<in>set ?rows. \<exists>S B. record_of d = Some (C, S, B) \<and> k = PStr S \<and> v = PStr B"
    if "mostRecentBookmark ?self k = Some v" for k v
    using that recovered_entry [of C ?rows k v] by simp
  from init found only show ?thesis by blast
qed

lemma init_recovers_example:
  \<open>init \<lparr>connected = True, sow_topics = (\<lambda>t.
            [str ''{"clientName": "C", "subId": "S1", "bookmark": "B1"}'',
             str ''{"clientName": "D", "subId": "S3", "bookmark": "B3"}'',
             str ''{"clientName": "C", "subId": "S2", "bookmark": "B2"}''])\<rparr>
       (str ''/amps/bookmarkStore'') (str ''C'')
   = Inr \<lparr>trackedName = str ''C'', topic = str ''/amps/bookmarkStore'',
          mostRecentBookmark =
            insert_records Map.empty
              [str ''{"clientName": "C", "subId": "S1", "bookmark": "B1"}'',
               str ''{"clientName": "C", "subId": "S2", "bookmark": "B2"}'']\<rparr>
   \<and> insert_records Map.empty
          [str ''{"clientName": "C", "subId": "S1", "bookmark": "B1"}'',
           str ''{"clientName": "C", "subId": "S2", "bookmark": "B2"}'']
       = [PStr (str ''S1'') \<mapsto> PStr (str ''B1''), PStr (str ''S2'') \<mapsto> PStr (str ''B2'')]\<close>
proof -
  let ?r1 = \<open>str ''{"clientName": "C", "subId": "S1", "bookmark": "B1"}''\<close>
  let ?r2 = \<open>str ''{"clientName": "D", "subId": "S3", "bookmark": "B3"}''\<close>
  let ?r3 = \<open>str ''{"clientName": "C", "subId": "S2", "bookmark": "B2"}''\<close>
  let ?client = "\<lparr>connected = True, sow_topics = (\<lambda>t. [?r1, ?r2, ?r3])\<rparr>"
  have r1: "record_of ?r1 = Some (str ''C'', str ''S1'', str ''B1'')"
    and r2: "record_of ?r2 = Some (str ''D'', str ''S3'', str ''B3'')"
    and r3: "record_of ?r3 = Some (str ''C'', str ''S2'', str ''B2'')"
    by code_simp+
  have sel: "filter (selects (str ''C'')) [?r1, ?r2, ?r3] = [?r1, ?r3]"
    using r1 r2 r3 by (simp add: selects_def record_of_fields str_def)
  have rows: "\<forall>d\<in>set (sow_topics ?client (str ''/amps/bookmarkStore'')).
      field (str ''clientName'') d = Some (PStr (str ''C'')) \<longrightarrow> record_of d \<noteq> None"
    using r1 r2 r3 by simp
  have plain: "39 \<notin> set (str ''C'')" by (simp add: str_def)
  from init_connected [of ?client "str ''/amps/bookmarkStore''" "str ''C''", OF _ rows plain] sel
  have "init ?client (str ''/amps/bookmarkStore'') (str ''C'')
      = Inr \<lparr>trackedName = str ''C'', topic = str ''/amps/bookmarkStore'',
          mostRecentBookmark = insert_records Map.empty [?r1, ?r3]\<rparr>"
    by simp
  moreover have "insert_records Map.empty [?r1, ?r3]
      = [PStr (str ''S1'') \<mapsto> PStr (str ''B1''), PStr (str ''S2'') \<mapsto> PStr (str ''B2'')]"
    using r1 r3 by simp
  ultimately show ?thesis by simp
qed


lemma selected_row_is_object:
  "selects name d \<Longrightarrow> \<exists>kvs. json_loads d = Inr (PDict kvs)"
  by (auto simp: selects_def field_def split: option.splits sum.splits pyval.splits)

lemma init_loop_skip_step:
  "get_command message \<noteq> str ''sow'' \<or> lacks_field message \<Longrightarrow>
   init_loop m (message # rest) = init_loop m rest"
proof (cases "get_command message = str ''sow''")
  case False
  then show ?thesis by simp
next
  case True
  assume "get_command message \<noteq> str ''sow'' \<or> lacks_field message"
  with True obtain kvs where
    kvs: "json_loads (get_data message) = Inr (PDict kvs)"
    and none: "map_of kvs (str ''bookmark'') = None \<or> map_of kvs (str ''subId'') = None"
    by (auto simp: lacks_field_def split: sum.splits pyval.splits)
  show ?thesis
  proof (cases "map_of kvs (str ''bookmark'')")
    case None
    with True kvs show ?thesis by (simp add: py_contains_def)
  next
    case (Some b)
    with none have "map_of kvs (str ''subId'') = None" by simp
    with True kvs Some show ?thesis by (simp add: py_contains_def)
  qed
qed

text \<open>
  C10. In the loop of the constructor, a message whose command is not \<^verbatim>\<open>sow\<close>, or
  whose data is a JSON object without the field \<^verbatim>\<open>bookmark\<close> or without the field
  \<^verbatim>\<open>subId\<close>, is passed over: the loop ends as it ends on the other messages alone, with
  the same dictionary, and with an exception only if one of them raises it. (The data
  of a row that the query selects is a JSON object: \<open>selected_row_is_object\<close>.)
\<close>

theorem init_loop_skips:
  "get_command message \<noteq> str ''sow'' \<or> lacks_field message \<Longrightarrow>
   init_loop m (before @ message # rest) = init_loop m (before @ rest)"
proof (induction before arbitrary: m)
  case Nil
  then show ?case using init_loop_skip_step by simp
next
  case (Cons a before)
  show ?case
    by (simp only: append_Cons init_loop.simps Cons.IH [OF Cons.prems])
qed

theorem init_loop_skips_witness:
  \<open>init_loop Map.empty
     ([sow_message (str ''{"clientName": "c", "subId": "s1", "bookmark": "41"}'')]
      @ sow_message (str ''{"clientName": "c", "subId": "s2"}'')
      # [sow_message (str ''{"clientName": "c", "subId": "s3", "bookmark": "43"}'')])
   = init_loop Map.empty
     ([sow_message (str ''{"clientName": "c", "subId": "s1", "bookmark": "41"}'')]
      @ [sow_message (str ''{"clientName": "c", "subId": "s3", "bookmark": "43"}'')])\<close>
  by (rule init_loop_skips, rule disjI2) code_simp

section \<open>The published record\<close>

text \<open>
  \<^verbatim>\<open>discard_message\<close> writes the three texts into the record without escaping them.
  For texts that need no escaping the record is the JSON object of the three fields:
  \<^verbatim>\<open>json.loads\<close> gives them back, the store keeps one row for the pair, and a fresh
  instance (for a client name without a quote) recovers the bookmark.
\<close>

lemma scanstring_quote: "scanstring acc (34 # rest) = Some (rev acc, rest)"
  by (cases rest) simp_all

lemma scanstring_plain:
  "c \<noteq> 34 \<Longrightarrow> c \<noteq> 92 \<Longrightarrow> 32 \<le> c \<Longrightarrow> cs \<noteq> [] \<Longrightarrow>
   scanstring acc (c # cs) = scanstring (c # acc) cs"
  by (cases cs) simp_all

lemma scanstring_safe:
  "json_safe s \<Longrightarrow> scanstring acc (s @ 34 # rest) = Some (rev acc @ s, rest)"
  by (induction s arbitrary: acc) (simp_all add: json_safe_def scanstring_quote scanstring_plain)

lemma lex_bookmark_record:
  assumes "json_safe name" "json_safe subid" "json_safe bookmark"
  shows "lex (bookmark_record name subid bookmark) =
    Some [TLBrace, TScalar (PStr (str ''clientName'')), TColon, TScalar (PStr name), TComma,
          TScalar (PStr (str ''subId'')), TColon, TScalar (PStr subid), TComma,
          TScalar (PStr (str ''bookmark'')), TColon, TScalar (PStr bookmark), TRBrace]"
  using assms
  by (simp add: bookmark_record_def str_def is_ws_def scanstring_safe)

lemma json_loads_bookmark_record:
  assumes "json_safe name" "json_safe subid" "json_safe bookmark"
  shows "json_loads (bookmark_record name subid bookmark) =
    Inr (PDict [(str ''clientName'', PStr name), (str ''subId'', PStr subid),
                (str ''bookmark'', PStr bookmark)])"
  by (simp add: json_loads_def lex_bookmark_record [OF assms] str_def)

lemma record_of_bookmark_record:
  assumes "json_safe name" "json_safe subid" "json_safe bookmark"
  shows "record_of (bookmark_record name subid bookmark) = Some (name, subid, bookmark)"
  by (simp add: record_of_def field_def json_loads_bookmark_record [OF assms] str_def)


lemma sow_key_bookmark_record:
  assumes "json_safe name" "json_safe subid" "json_safe bookmark"
  shows "sow_key (bookmark_record name subid bookmark) = Some (Some (PStr name), Some (PStr subid))"
  by (rule sow_key_record [OF record_of_bookmark_record [OF assms]])

lemma sow_upsert_keys:
  "sow_key d \<noteq> None \<Longrightarrow>
   map sow_key (sow_upsert d rows) =
     (if sow_key d \<in> set (map sow_key rows) then map sow_key rows
      else map sow_key rows @ [sow_key d])"
  by (auto simp: sow_upsert_def)

lemma sow_upsert_distinct:
  "distinct (map sow_key rows) \<Longrightarrow> distinct (map sow_key (sow_upsert d rows))"
  by (cases "sow_key d = None") (auto simp: sow_upsert_keys, simp add: sow_upsert_def)

lemma sow_upsert_member:
  "sow_key d \<noteq> None \<Longrightarrow> d \<in> set (sow_upsert d rows)"
  by (auto simp: sow_upsert_def)

lemma sow_upsert_rows:
  "r \<in> set (sow_upsert d rows) \<Longrightarrow> r = d \<or> r \<in> set rows"
  by (auto simp: sow_upsert_def split: if_splits)

lemma map_replace_absent:
  "k \<notin> f ` set xs \<Longrightarrow> map (\<lambda>r. if f r = k then d else r) xs = xs"
  by (induction xs) auto

lemma sow_upsert_twice:
  "sow_upsert d (sow_upsert d rows) = sow_upsert d rows"
proof (cases "sow_key d = None")
  case True
  then show ?thesis by (simp add: sow_upsert_def)
next
  case some: False
  let ?g = "\<lambda>r. if sow_key r = sow_key d then d else r"
  show ?thesis
  proof (cases "sow_key d \<in> set (map sow_key rows)")
    case present: True
    from some present have 1: "sow_upsert d rows = map ?g rows"
      by (auto simp: sow_upsert_def)
    from present have "sow_key d \<in> set (map sow_key (map ?g rows))"
      using sow_upsert_keys [OF some, of rows] 1 by simp
    with some have "sow_upsert d (map ?g rows) = map ?g (map ?g rows)"
      by (auto simp: sow_upsert_def)
    also have "\<dots> = map ?g rows" by simp
    finally show ?thesis using 1 by simp
  next
    case absent: False
    from some absent have 1: "sow_upsert d rows = rows @ [d]"
      by (auto simp: sow_upsert_def)
    from absent have "map ?g rows = rows"
      by (simp add: map_replace_absent)
    with some have "sow_upsert d (rows @ [d]) = rows @ [d]"
      by (auto simp: sow_upsert_def)
    with 1 show ?thesis by simp
  qed
qed

lemma filter_key_absent:
  "k \<notin> f ` set xs \<Longrightarrow> filter (\<lambda>y. f y = k) xs = []"
  by (induction xs) auto

lemma filter_key_single:
  "distinct (map f xs) \<Longrightarrow> x \<in> set xs \<Longrightarrow> filter (\<lambda>y. f y = f x) xs = [x]"
proof (induction xs)
  case Nil
  then show ?case by simp
next
  case (Cons a xs)
  show ?case
  proof (cases "a = x")
    case True
    with Cons.prems(1) have "f x \<notin> f ` set xs" by simp
    then have "filter (\<lambda>y. f y = f x) xs = []" by (rule filter_key_absent)
    with True show ?thesis by simp
  next
    case False
    with Cons.prems have "x \<in> set xs" and "f a \<noteq> f x" by auto
    with Cons show ?thesis by simp
  qed
qed

lemma recover_after_discard_safe:
  assumes conn: "connected client"
    and safe: "json_safe name" "json_safe subid" "json_safe bookmark"
    and plain: "39 \<notin> set name"
    and rows: "\<forall>d\<in>set (sow_topics client t).
           field (str ''clientName'') d = Some (PStr name) \<longrightarrow> record_of d \<noteq> None"
    and keys: "distinct (map sow_key (sow_topics client t))"
    and msg: "get_sub_id message = Some subid" "get_bookmark message = Some bookmark"
  shows "recover_after_discard client t name message subid = Inr (PStr bookmark)"
proof -
  let ?d = "bookmark_record name subid bookmark"
  let ?rows' = "sow_upsert ?d (sow_topics client t)"
  let ?client' = "client\<lparr>sow_topics := (sow_topics client)(t := ?rows')\<rparr>"
  have rec: "record_of ?d = Some (name, subid, bookmark)"
    by (rule record_of_bookmark_record [OF safe])
  then have key: "sow_key ?d \<noteq> None" by (simp add: sow_key_record)
  obtain self where init: "init client t name = Inr self"
    and self: "trackedName self = name" "topic self = t"
    using init_connected [OF conn rows plain] by simp
  have disc: "discard_message self message client =
      (Inr PNone,
       self\<lparr>mostRecentBookmark := (mostRecentBookmark self)(PStr subid \<mapsto> PStr bookmark)\<rparr>,
       ?client')"
    using conn msg self by (simp add: discard_message_def client_publish_def)
  have conn': "connected ?client'" using conn by simp
  have rows': "\<forall>d\<in>set (sow_topics ?client' t).
           field (str ''clientName'') d = Some (PStr name) \<longrightarrow> record_of d \<noteq> None"
    using rows rec by (auto dest!: sow_upsert_rows)
  have keys': "distinct (map sow_key ?rows')"
    using keys by (rule sow_upsert_distinct)
  have mem: "?d \<in> set ?rows'"
    using key by (rule sow_upsert_member)
  have "init ?client' t name =
      Inr \<lparr>trackedName = name, topic = t,
           mostRecentBookmark =
             insert_records Map.empty (filter (selects name) ?rows')\<rparr>"
    using init_connected [OF conn' rows' plain] by simp
  with init disc recovered_row [OF keys' mem rec]
  show ?thesis
    by (simp add: recover_after_discard_def get_most_recent_def)
qed

lemma discard_message_twice:
  assumes "connected client"
    and "discard_message self message client = (r1, self1, client1)"
  shows "discard_message self1 message client1 = (r1, self1, client1)"
  using assms
  by (auto simp: discard_message_def client_publish_def sow_upsert_twice
           split: option.splits)

lemma discard_message_row:
  assumes conn: "connected client"
    and safe: "json_safe (trackedName self)" "json_safe subid" "json_safe bookmark"
    and keys: "distinct (map sow_key (sow_topics client (topic self)))"
    and msg: "get_sub_id message = Some subid" "get_bookmark message = Some bookmark"
    and disc: "discard_message self message client = (r, self', client')"
  shows "rows_of (trackedName self) subid (sow_topics client' (topic self))
           = [bookmark_record (trackedName self) subid bookmark]"
proof -
  let ?d = "bookmark_record (trackedName self) subid bookmark"
  let ?rows' = "sow_upsert ?d (sow_topics client (topic self))"
  have key: "sow_key ?d = Some (Some (PStr (trackedName self)), Some (PStr subid))"
    by (rule sow_key_bookmark_record [OF safe])
  have "sow_topics client' (topic self) = ?rows'"
    using conn msg disc by (auto simp: discard_message_def client_publish_def)
  moreover have "filter (\<lambda>y. sow_key y = sow_key ?d) ?rows' = [?d]"
    by (rule filter_key_single [OF sow_upsert_distinct [OF keys] sow_upsert_member])
       (simp add: key)
  ultimately show ?thesis by (simp add: rows_of_def key)
qed

lemma recover_after_discard_example:
  "recover_after_discard \<lparr>connected = True, sow_topics = (\<lambda>t. [])\<rparr>
     (str ''/amps/bookmarkStore'') (str ''haclient'')
     \<lparr>get_command = str ''publish'', get_data = str ''{}'',
      get_sub_id = Some (str ''orders-1''), get_bookmark = Some (str ''42'')\<rparr>
     (str ''orders-1'')
   = Inr (PStr (str ''42''))"
  by code_simp

text \<open>
  C3 fails on the code. The subscription id \<^verbatim>\<open>feed\north\<close> (92 is the code of the
  backslash) is discarded with the bookmark 42 over an empty store; the record reads
  \<^verbatim>\<open>"subId": "feed\north"\<close>, in which JSON takes \<^verbatim>\<open>\n\<close> for a line feed, so the fresh
  instance holds the bookmark under another subscription id and answers "0", not 42,
  for \<^verbatim>\<open>feed\north\<close>.
\<close>

theorem recover_after_discard_backslash:
  "recover_after_discard \<lparr>connected = True, sow_topics = (\<lambda>t. [])\<rparr>
     (str ''/amps/bookmarkStore'') (str ''haclient'')
     \<lparr>get_command = str ''publish'', get_data = str ''{}'',
      get_sub_id = Some (str ''feed'' @ [92] @ str ''north''),
      get_bookmark = Some (str ''42'')\<rparr>
     (str ''feed'' @ [92] @ str ''north'')
   = Inr (PStr (str ''0''))"
  by code_simp

text \<open>
  C6 fails on the code, by the same defect. The subscription id \<^verbatim>\<open>ord"1\<close> is discarded
  twice with the bookmark 42 over an empty store. The record reads \<^verbatim>\<open>"subId": "ord"1"\<close>
  and is not JSON: both calls return, the dictionary holds 42 for \<^verbatim>\<open>ord"1\<close>, and the
  topic holds no row at all, where the claim has exactly one row for the client and
  \<^verbatim>\<open>ord"1\<close>. (The two calls do leave the same dictionary and the same store:
  \<open>discard_message_twice\<close>.)
\<close>

theorem discard_twice_quote:
  \<open>json_loads (bookmark_record (str ''haclient'') (str ''ord"1'') (str ''42''))
     = Inl ValueError
   \<and> fst (discard_all
       \<lparr>trackedName = str ''haclient'', topic = str ''/amps/bookmarkStore'',
        mostRecentBookmark = Map.empty\<rparr>
       [\<lparr>get_command = str ''publish'', get_data = str ''{}'',
         get_sub_id = Some (str ''ord"1''), get_bookmark = Some (str ''42'')\<rparr>,
        \<lparr>get_command = str ''publish'', get_data = str ''{}'',
         get_sub_id = Some (str ''ord"1''), get_bookmark = Some (str ''42'')\<rparr>]
       \<lparr>connected = True, sow_topics = (\<lambda>t. [])\<rparr>)
     = Inr PNone
   \<and> mostRecentBookmark (fst (snd (discard_all
       \<lparr>trackedName = str ''haclient'', topic = str ''/amps/bookmarkStore'',
        mostRecentBookmark = Map.empty\<rparr>
       [\<lparr>get_command = str ''publish'', get_data = str ''{}'',
         get_sub_id = Some (str ''ord"1''), get_bookmark = Some (str ''42'')\<rparr>,
        \<lparr>get_command = str ''publish'', get_data = str ''{}'',
         get_sub_id = Some (str ''ord"1''), get_bookmark = Some (str ''42'')\<rparr>]
       \<lparr>connected = True, sow_topics = (\<lambda>t. [])\<rparr>))) (PStr (str ''ord"1''))
     = Some (PStr (str ''42''))
   \<and> rows_of (str ''haclient'') (str ''ord"1'')
       (sow_topics (snd (snd (discard_all
       \<lparr>trackedName = str ''haclient'', topic = str ''/amps/bookmarkStore'',
        mostRecentBookmark = Map.empty\<rparr>
       [\<lparr>get_command = str ''publish'', get_data = str ''{}'',
         get_sub_id = Some (str ''ord"1''), get_bookmark = Some (str ''42'')\<rparr>,
        \<lparr>get_command = str ''publish'', get_data = str ''{}'',
         get_sub_id = Some (str ''ord"1''), get_bookmark = Some (str ''42'')\<rparr>]
       \<lparr>connected = True, sow_topics = (\<lambda>t. [])\<rparr>))) (str ''/amps/bookmarkStore''))
     = []
   \<and> sow_topics (snd (snd (discard_all
       \<lparr>trackedName = str ''haclient'', topic = str ''/amps/bookmarkStore'',
        mostRecentBookmark = Map.empty\<rparr>
       [\<lparr>get_command = str ''publish'', get_data = str ''{}'',
         get_sub_id = Some (str ''ord"1''), get_bookmark = Some (str ''42'')\<rparr>,
        \<lparr>get_command = str ''publish'', get_data = str ''{}'',
         get_sub_id = Some (str ''ord"1''), get_bookmark = Some (str ''42'')\<rparr>]
       \<lparr>connected = True, sow_topics = (\<lambda>t. [])\<rparr>))) (str ''/amps/bookmarkStore'')
     = []\<close>
  by code_simp

end
